theory Spec2Isabelle
  imports Main "HOL-Library.Word"
begin

section \<open>Data model\<close>

text \<open>
  The aggregator of zkevm-node (\<^verbatim>\<open>aggregator/aggregator.go\<close>) and the monitored
  transaction of the transaction manager (\<^verbatim>\<open>ethtxmanager/monitoredtx.go\<close>).
  Batch numbers are Go \<^verbatim>\<open>uint64\<close>, so they are 64-bit words and \<open>+ 1\<close>, \<open>- 1\<close> wrap.
  Instants (\<^verbatim>\<open>time.Time\<close>) and durations are integers counting nanoseconds.
  Byte slices and strings are \<open>string\<close>; a hash or an address is the byte string that
  its \<^verbatim>\<open>Bytes()\<close> or \<^verbatim>\<open>String()\<close> method yields.
\<close>

type_synonym u64 = "64 word"

text \<open>
  Go errors. \<^verbatim>\<open>fmt.Errorf("... %w", err)\<close> wraps its argument and \<^verbatim>\<open>errors.Is\<close> looks
  through the wrapping; \<^verbatim>\<open>fmt.Errorf\<close> with \<^verbatim>\<open>%v\<close> and \<^verbatim>\<open>errors.New\<close> make a fresh error.
\<close>

datatype error =
    ErrNotFound
  | ErrStateNotSynchronized
  | ErrContextCanceled
  | ErrOther string
  | Errorf string error

fun errors_Is :: "error \<Rightarrow> error \<Rightarrow> bool" where
  "errors_Is (Errorf m e) t = (Errorf m e = t \<or> errors_Is e t)"
| "errors_Is e t = (e = t)"

text \<open>What a function can do besides returning: panic (a nil dereference), or never
  come back from a polling loop.\<close>

datatype 'a res = Ret 'a | Panic | Blocked

record state_Batch =
  batch_BatchNumber :: u64
  batch_StateRoot :: string
  batch_LocalExitRoot :: string
  batch_AccInputHash :: string
  batch_GlobalExitRoot :: string
  batch_Timestamp :: int
  batch_Coinbase :: string
  batch_BatchL2Data :: string

record state_Proof =
  BatchNumber :: u64
  BatchNumberFinal :: u64
  Proof :: string
  InputProver :: string
  ProofID :: "string option"
  Prover :: "string option"
  Generating :: bool

record PublicInputsExtended =
  NewStateRoot :: string
  NewLocalExitRoot :: string

record FinalProof =
  fp_Proof :: string
  Public :: "PublicInputsExtended option"

record FinalProofInputs =
  in_FinalProof :: FinalProof
  in_NewLocalExitRoot :: string
  in_NewStateRoot :: string

record finalProofMsg =
  proverID :: string
  recursiveProof :: state_Proof
  finalProof :: FinalProof

definition mockedStateRoot :: string where
  "mockedStateRoot = ''0x090bcaf734c4f06c93954a827b45a6e8c67b8e0fd1e0a35a1c5982d6961828f9''"

definition mockedLocalExitRoot :: string where
  "mockedLocalExitRoot = ''0x17c04c3760510b48c6012742c540a81aba4bca2f78b9d14bfd2f123e2e53ea3e''"

text \<open>What the aggregator does to its collaborators, in the order it does it.\<close>

datatype event =
    EvAddGeneratedProof state_Proof
  | EvUpdateGeneratedProof state_Proof
  | EvDeleteGeneratedProofs u64 u64
  | EvVerifyBatches u64 u64 FinalProofInputs
  | EvIsSynced bool
  | EvSleep
  | EvEnableProofVerification
  | EvResetVerifyProofTime

text \<open>
  The \<^verbatim>\<open>Aggregator\<close> struct: the gate (\<open>TimeSendFinalProof\<close>, \<open>verifyingProof\<close>), the
  configuration it reads, the proof table behind \<^verbatim>\<open>a.State\<close> with the pending table of
  the store transaction that is open, the messages handed over on the \<^verbatim>\<open>finalProof\<close>
  channel and the calls made so far. The two mutexes serialise
  sessions; one session is modelled at a time.
\<close>

record Aggregator =
  TimeSendFinalProof :: int
  verifyingProof :: bool
  cfg_VerifyProofInterval :: int
  cfg_ChainID :: u64
  State_proofs :: "state_Proof list"
  State_tx :: "state_Proof list option"
  finalProofChan :: "finalProofMsg list"
  trace :: "event list"

definition emit :: "event \<Rightarrow> Aggregator \<Rightarrow> Aggregator" where
  "emit ev a = a\<lparr>trace := trace a @ [ev]\<rparr>"

section \<open>The gate\<close>

text \<open>\<^verbatim>\<open>canVerifyProof\<close>; \<open>now\<close> is what \<^verbatim>\<open>time.Now()\<close> returns, and
  \<^verbatim>\<open>t.Before(u)\<close> is \<open>t < u\<close>.\<close>

definition canVerifyProof :: "int \<Rightarrow> Aggregator \<Rightarrow> bool \<times> Aggregator" where
  "canVerifyProof now a =
     (if TimeSendFinalProof a < now then
        (if verifyingProof a then (False, a)
         else (True, a\<lparr>verifyingProof := True\<rparr>))
      else (False, a))"

definition enableProofVerification :: "Aggregator \<Rightarrow> Aggregator" where
  "enableProofVerification a = emit EvEnableProofVerification (a\<lparr>verifyingProof := False\<rparr>)"

definition resetVerifyProofTime :: "int \<Rightarrow> Aggregator \<Rightarrow> Aggregator" where
  "resetVerifyProofTime now a =
     emit EvResetVerifyProofTime
       (a\<lparr>verifyingProof := False, TimeSendFinalProof := now + cfg_VerifyProofInterval a\<rparr>)"

text \<open>A run of gate calls that do not move the deadline, each at its own instant; the
  result lists every \<^verbatim>\<open>canVerifyProof\<close> call with its instant and its answer.\<close>

datatype gate_call = CallCanVerifyProof | CallEnableProofVerification

fun run_gate :: "(gate_call \<times> int) list \<Rightarrow> Aggregator \<Rightarrow> (int \<times> bool) list" where
  "run_gate [] a = []"
| "run_gate ((CallCanVerifyProof, t) # cs) a =
     (t, fst (canVerifyProof t a)) # run_gate cs (snd (canVerifyProof t a))"
| "run_gate ((CallEnableProofVerification, t) # cs) a =
     run_gate cs (enableProofVerification a)"

section \<open>The proof store\<close>

text \<open>
  Modelled from the spec: the store behind \<^verbatim>\<open>a.State\<close> (package \<^verbatim>\<open>state\<close>) is not part
  of the sources at hand. Its mutation primitives act on the proof table as the spec's
  section 4.1 and data-model invariants 2 and 5 say: a row is identified by its pair
  \<open>(BatchNumber, BatchNumberFinal)\<close>, \<^verbatim>\<open>UpdateGeneratedProof\<close> rewrites the row of that pair,
  \<^verbatim>\<open>DeleteGeneratedProofs(lo, hi)\<close> removes every row with \<open>lo \<le> BatchNumber\<close> and
  \<open>BatchNumberFinal \<le> hi\<close>. Each call may fail, as its caller decides: then it changes
  nothing. A call with the nil handle writes to the table, a call with the handle of the
  open transaction to its pending table, which \<^verbatim>\<open>Commit\<close> installs and \<^verbatim>\<open>Rollback\<close> drops.
  What the store's selections and every other collaborator answer is an input of the
  function that asks. A pointer that comes back with a nil error is not nil, except where
  the aggregator itself tests it.
\<close>

datatype dbTx = NilTx | OpenTx

definition same_range :: "state_Proof \<Rightarrow> state_Proof \<Rightarrow> bool" where
  "same_range p r = (BatchNumber r = BatchNumber p \<and> BatchNumberFinal r = BatchNumberFinal p)"

definition update_rows :: "state_Proof \<Rightarrow> state_Proof list \<Rightarrow> state_Proof list" where
  "update_rows p rs = map (\<lambda>r. if same_range p r then p else r) rs"

definition delete_rows :: "u64 \<Rightarrow> u64 \<Rightarrow> state_Proof list \<Rightarrow> state_Proof list" where
  "delete_rows lo hi rs = filter (\<lambda>r. \<not> (lo \<le> BatchNumber r \<and> BatchNumberFinal r \<le> hi)) rs"

definition store_exec ::
  "error option \<Rightarrow> event \<Rightarrow> (state_Proof list \<Rightarrow> state_Proof list) \<Rightarrow> dbTx \<Rightarrow> Aggregator
     \<Rightarrow> error option \<times> Aggregator" where
  "store_exec failure ev f tx a =
     (case failure of
        Some e \<Rightarrow> (Some e, emit ev a)
      | None \<Rightarrow>
          (case tx of
             NilTx \<Rightarrow> (None, emit ev (a\<lparr>State_proofs := f (State_proofs a)\<rparr>))
           | OpenTx \<Rightarrow> (None, emit ev (a\<lparr>State_tx := map_option f (State_tx a)\<rparr>))))"

definition AddGeneratedProof ::
  "error option \<Rightarrow> state_Proof \<Rightarrow> dbTx \<Rightarrow> Aggregator \<Rightarrow> error option \<times> Aggregator" where
  "AddGeneratedProof failure p = store_exec failure (EvAddGeneratedProof p) (\<lambda>rs. rs @ [p])"

definition UpdateGeneratedProof ::
  "error option \<Rightarrow> state_Proof \<Rightarrow> dbTx \<Rightarrow> Aggregator \<Rightarrow> error option \<times> Aggregator" where
  "UpdateGeneratedProof failure p = store_exec failure (EvUpdateGeneratedProof p) (update_rows p)"

definition DeleteGeneratedProofs ::
  "error option \<Rightarrow> u64 \<Rightarrow> u64 \<Rightarrow> dbTx \<Rightarrow> Aggregator \<Rightarrow> error option \<times> Aggregator" where
  "DeleteGeneratedProofs failure lo hi =
     store_exec failure (EvDeleteGeneratedProofs lo hi) (delete_rows lo hi)"

definition BeginStateTransaction :: "error option \<Rightarrow> Aggregator \<Rightarrow> error option \<times> Aggregator" where
  "BeginStateTransaction failure a =
     (case failure of
        Some e \<Rightarrow> (Some e, a)
      | None \<Rightarrow> (None, a\<lparr>State_tx := Some (State_proofs a)\<rparr>))"

definition Commit :: "error option \<Rightarrow> Aggregator \<Rightarrow> error option \<times> Aggregator" where
  "Commit failure a =
     (case failure of
        Some e \<Rightarrow> (Some e, a\<lparr>State_tx := None\<rparr>)
      | None \<Rightarrow>
          (None, a\<lparr>State_proofs := (case State_tx a of Some pending \<Rightarrow> pending
                                      | None \<Rightarrow> State_proofs a),
                   State_tx := None\<rparr>))"

definition Rollback :: "Aggregator \<Rightarrow> Aggregator" where
  "Rollback a = a\<lparr>State_tx := None\<rparr>"

section \<open>The synchronization barrier\<close>

text \<open>One poll of \<^verbatim>\<open>isSynced\<close>: what \<^verbatim>\<open>GetLastVerifiedBatch\<close> and
  \<^verbatim>\<open>GetLatestVerifiedBatchNum\<close> answer at that moment. An error of the store gives false
  at line 784 when it is not \<^verbatim>\<open>ErrNotFound\<close>, and at line 787, by the nil batch it comes
  with, when it is.\<close>

type_synonym sync_poll = "(error + state_Batch option) \<times> (error + u64)"

definition isSynced :: "sync_poll \<Rightarrow> bool" where
  "isSynced poll =
     (case fst poll of
        Inl err \<Rightarrow> False
      | Inr None \<Rightarrow> False
      | Inr (Some lastVerifiedBatch) \<Rightarrow>
          (case snd poll of
             Inl err \<Rightarrow> False
           | Inr lastVerifiedEthBatchNum \<Rightarrow>
               (if batch_BatchNumber lastVerifiedBatch < lastVerifiedEthBatchNum then False
                else True)))"

text \<open>\<^verbatim>\<open>for !a.isSynced(ctx) { time.Sleep(RetryTime) }\<close> against the polls still to
  come; \<open>False\<close> when none of them is synced, so that the loop is still waiting.\<close>

fun waitSynced :: "sync_poll list \<Rightarrow> Aggregator \<Rightarrow> bool \<times> Aggregator" where
  "waitSynced [] a = (False, a)"
| "waitSynced (poll # polls) a =
     (if isSynced poll then (True, emit (EvIsSynced True) a)
      else waitSynced polls (emit EvSleep (emit (EvIsSynced False) a)))"

section \<open>Building the final proof\<close>

text \<open>The answers one call of \<^verbatim>\<open>tryBuildFinalProof\<close> gets from the clock, the store,
  the L1 view, the prover and the context.\<close>

record final_env =
  fe_now :: int
  fe_polls :: "sync_poll list"
  fe_GetLastVerifiedBatch :: "error + state_Batch option"
  fe_GetProofReadyToVerify :: "u64 \<Rightarrow> error + state_Proof"
  fe_lock :: "error option"
  fe_CheckProofContainsCompleteSequences :: "state_Proof \<Rightarrow> error + bool"
  fe_GetPublicAddress :: "error + string"
  fe_FinalProof :: "string \<Rightarrow> string \<Rightarrow> error + string"
  fe_WaitFinalProof :: "string \<Rightarrow> error + FinalProof option"
  fe_GetBatchByNumber :: "u64 \<Rightarrow> error + state_Batch"
  fe_ctxDone :: bool
  fe_unlock :: "error option"

text \<open>\<^verbatim>\<open>buildFinalProof\<close> returns Go's pair \<^verbatim>\<open>(*pb.FinalProof, error)\<close> and leaves the
  final proof's id in \<^verbatim>\<open>proof.ProofID\<close>. Reading \<^verbatim>\<open>finalProof.Public.NewStateRoot\<close> through a
  nil pointer panics.\<close>

definition buildFinalProof ::
  "final_env \<Rightarrow> state_Proof \<Rightarrow> (FinalProof option \<times> error option) res \<times> state_Proof" where
  "buildFinalProof env proof =
     (case fe_GetPublicAddress env of
        Inl err \<Rightarrow> (Ret (None, Some (Errorf ''Failed to get public address, '' err)), proof)
      | Inr pubAddr \<Rightarrow>
     (case fe_FinalProof env (Proof proof) pubAddr of
        Inl err \<Rightarrow> (Ret (None, Some (Errorf ''Failed to get final proof id, '' err)), proof)
      | Inr finalProofID \<Rightarrow>
     (let proof1 = proof\<lparr>ProofID := Some finalProofID\<rparr> in
      case fe_WaitFinalProof env finalProofID of
        Inl err \<Rightarrow>
          (Ret (None, Some (Errorf ''Failed to get final proof from prover, '' err)), proof1)
      | Inr None \<Rightarrow> (Panic, proof1)
      | Inr (Some fp) \<Rightarrow>
     (case Public fp of
        None \<Rightarrow> (Panic, proof1)
      | Some pub \<Rightarrow>
          if NewStateRoot pub = mockedStateRoot \<and> NewLocalExitRoot pub = mockedLocalExitRoot
          then
            (case fe_GetBatchByNumber env (BatchNumberFinal proof1) of
               Inl err \<Rightarrow> (Ret (None, Some (ErrOther ''Failed to retrieve batch with number'')), proof1)
             | Inr finalBatch \<Rightarrow>
                 (Ret (Some (fp\<lparr>Public := Some (pub\<lparr>NewStateRoot := batch_StateRoot finalBatch,
                          NewLocalExitRoot := batch_LocalExitRoot finalBatch\<rparr>)\<rparr>), None), proof1))
          else (Ret (Some fp, None), proof1)))))"

definition validateEligibleFinalProof ::
  "final_env \<Rightarrow> state_Proof \<Rightarrow> u64 \<Rightarrow> bool \<times> error option" where
  "validateEligibleFinalProof env proof lastVerifiedBatchNum =
     (let batchNumberToVerify = lastVerifiedBatchNum + 1 in
      if BatchNumber proof \<noteq> batchNumberToVerify then (False, None)
      else
        (case fe_CheckProofContainsCompleteSequences env proof of
           Inl err \<Rightarrow>
             (False, Some (Errorf ''Failed to check if proof contains compete sequences, '' err))
         | Inr bComplete \<Rightarrow> if \<not> bComplete then (False, None) else (True, None)))"

definition getAndLockProofReadyToVerify ::
  "final_env \<Rightarrow> u64 \<Rightarrow> Aggregator \<Rightarrow> (error + state_Proof) \<times> Aggregator" where
  "getAndLockProofReadyToVerify env lastVerifiedBatchNum a =
     (case fe_GetProofReadyToVerify env lastVerifiedBatchNum of
        Inl err \<Rightarrow> (Inl err, a)
      | Inr proofToVerify \<Rightarrow>
          (let locked = proofToVerify\<lparr>Generating := True\<rparr> in
           case UpdateGeneratedProof (fe_lock env) locked NilTx a of
             (Some err, a1) \<Rightarrow> (Inl err, a1)
           | (None, a1) \<Rightarrow> (Inr locked, a1)))"

text \<open>
  The deferred functions of \<^verbatim>\<open>tryBuildFinalProof\<close> when the local \<^verbatim>\<open>err\<close> is not nil at the
  return: the later one (registered only after a proof was locked) unlocks the proof,
  then the first one re-enables the gate. With \<^verbatim>\<open>err == nil\<close> they do nothing.
\<close>

definition tbfp_release ::
  "final_env \<Rightarrow> bool \<Rightarrow> state_Proof \<Rightarrow> Aggregator \<Rightarrow> state_Proof \<times> Aggregator" where
  "tbfp_release env locked proof a =
     (if locked then
        (let proof1 = proof\<lparr>Generating := False\<rparr> in
         case UpdateGeneratedProof (fe_unlock env) proof1 NilTx a of
           (err2, a1) \<Rightarrow> (proof1, enableProofVerification a1))
      else (proof, enableProofVerification a))"

text \<open>Lines 379 to 405: build the final proof from the eligible one and hand it to the
  dispatcher. A return on context cancellation leaves the local \<^verbatim>\<open>err\<close> nil.\<close>

definition tbfp_build ::
  "final_env \<Rightarrow> string \<Rightarrow> bool \<Rightarrow> state_Proof \<Rightarrow> Aggregator
     \<Rightarrow> (bool \<times> error option) res \<times> state_Proof \<times> Aggregator" where
  "tbfp_build env pid locked proof a =
     (case buildFinalProof env proof of
        (Panic, proof1) \<Rightarrow> (Panic, proof1, a)
      | (Blocked, proof1) \<Rightarrow> (Blocked, proof1, a)
      | (Ret (fp, Some err), proof1) \<Rightarrow>
          (case tbfp_release env locked proof1 a of
             (proof2, a2) \<Rightarrow>
               (Ret (False, Some (Errorf ''Failed to build final proof, '' err)), proof2, a2))
      | (Ret (None, None), proof1) \<Rightarrow>
          (case tbfp_release env locked proof1 a of
             (proof2, a2) \<Rightarrow>
               (Ret (False, Some (ErrOther ''Error generating final proof for proof ready to verify'')),
                proof2, a2))
      | (Ret (Some fp, None), proof1) \<Rightarrow>
          if fe_ctxDone env then (Ret (False, Some ErrContextCanceled), proof1, a)
          else (Ret (True, None), proof1,
                a\<lparr>finalProofChan := finalProofChan a
                   @ [\<lparr>proverID = pid, recursiveProof = proof1, finalProof = fp\<rparr>]\<rparr>))"

text \<open>Lines 341 to 377, with the last verified batch number in hand.\<close>

definition tbfp_select ::
  "final_env \<Rightarrow> string \<Rightarrow> u64 \<Rightarrow> state_Proof option \<Rightarrow> Aggregator
     \<Rightarrow> (bool \<times> error option) res \<times> state_Proof option \<times> Aggregator" where
  "tbfp_select env pid lastVerifiedBatchNum proof a =
     (case proof of
        None \<Rightarrow>
          (case getAndLockProofReadyToVerify env lastVerifiedBatchNum a of
             (Inl err, a1) \<Rightarrow>
               if errors_Is err ErrNotFound
               then (Ret (False, None), None, enableProofVerification a1)
               else (Ret (False, Some err), None, enableProofVerification a1)
           | (Inr p, a1) \<Rightarrow>
               (case tbfp_build env pid True p a1 of (r, p1, a2) \<Rightarrow> (r, Some p1, a2)))
      | Some p \<Rightarrow>
          (case validateEligibleFinalProof env p lastVerifiedBatchNum of
             (eligible, Some err) \<Rightarrow>
               (Ret (False, Some (Errorf ''Failed to validate eligible final proof, '' err)),
                Some p, enableProofVerification a)
           | (False, None) \<Rightarrow> (Ret (False, None), Some p, a)
           | (True, None) \<Rightarrow>
               (case tbfp_build env pid False p a of (r, p1, a2) \<Rightarrow> (r, Some p1, a2))))"

definition tryBuildFinalProof ::
  "final_env \<Rightarrow> string \<Rightarrow> state_Proof option \<Rightarrow> Aggregator
     \<Rightarrow> (bool \<times> error option) res \<times> state_Proof option \<times> Aggregator" where
  "tryBuildFinalProof env pid proof a =
     (case canVerifyProof (fe_now env) a of
        (False, a0) \<Rightarrow> (Ret (False, None), proof, a0)
      | (True, a0) \<Rightarrow>
     (case waitSynced (fe_polls env) a0 of
        (False, a1) \<Rightarrow> (Blocked, proof, a1)
      | (True, a1) \<Rightarrow>
     (case fe_GetLastVerifiedBatch env of
        Inl err \<Rightarrow>
          if \<not> errors_Is err ErrNotFound
          then (Ret (False, Some (Errorf ''Failed to get last verified batch, '' err)), proof,
                enableProofVerification a1)
          else tbfp_select env pid 0 proof a1
      | Inr None \<Rightarrow> tbfp_select env pid 0 proof a1
      | Inr (Some lastVerifiedBatch) \<Rightarrow>
          tbfp_select env pid (batch_BatchNumber lastVerifiedBatch) proof a1)))"

section \<open>The final-proof dispatcher\<close>

record send_env =
  se_GetBatchByNumber :: "u64 \<Rightarrow> error + state_Batch"
  se_VerifyBatches :: "u64 \<Rightarrow> u64 \<Rightarrow> FinalProofInputs \<Rightarrow> error option"
  se_unlock :: "error option"
  se_polls :: "sync_poll list"
  se_now :: int
  se_DeleteGeneratedProofs :: "error option"

text \<open>The body of \<^verbatim>\<open>case msg := <-a.finalProof\<close>; \<open>False\<close> when it is still waiting for
  the synchronizer after the last poll.\<close>

definition sendFinalProof_msg :: "send_env \<Rightarrow> finalProofMsg \<Rightarrow> Aggregator \<Rightarrow> bool \<times> Aggregator" where
  "sendFinalProof_msg env msg a =
     (let proof = recursiveProof msg in
      case se_GetBatchByNumber env (BatchNumberFinal proof) of
        Inl err \<Rightarrow> (True, enableProofVerification a)
      | Inr finalBatch \<Rightarrow>
     (let inputs = \<lparr>in_FinalProof = finalProof msg,
                    in_NewLocalExitRoot = batch_LocalExitRoot finalBatch,
                    in_NewStateRoot = batch_StateRoot finalBatch\<rparr>;
          a1 = emit (EvVerifyBatches (BatchNumber proof - 1) (BatchNumberFinal proof) inputs) a
      in
      case se_VerifyBatches env (BatchNumber proof - 1) (BatchNumberFinal proof) inputs of
        Some err \<Rightarrow>
          (case UpdateGeneratedProof (se_unlock env) (proof\<lparr>Generating := False\<rparr>) NilTx a1 of
             (err2, a2) \<Rightarrow> (True, enableProofVerification a2))
      | None \<Rightarrow>
     (case waitSynced (se_polls env) a1 of
        (False, a2) \<Rightarrow> (False, a2)
      | (True, a2) \<Rightarrow>
          (case DeleteGeneratedProofs (se_DeleteGeneratedProofs env)
                  (BatchNumber proof) (BatchNumberFinal proof) NilTx
                  (resetVerifyProofTime (se_now env) a2) of
             (err2, a3) \<Rightarrow> (True, a3)))))"

text \<open>The loop of \<^verbatim>\<open>sendFinalProof\<close> over what its \<^verbatim>\<open>select\<close> receives: a cancelled
  context ends it, a message is handled and the loop goes on.\<close>

datatype chan_event = CtxDone | Receive finalProofMsg send_env

fun sendFinalProof :: "chan_event list \<Rightarrow> Aggregator \<Rightarrow> unit res \<times> Aggregator" where
  "sendFinalProof [] a = (Blocked, a)"
| "sendFinalProof (CtxDone # evs) a = (Ret (), a)"
| "sendFinalProof (Receive msg env # evs) a =
     (case sendFinalProof_msg env msg a of
        (False, a1) \<Rightarrow> (Blocked, a1)
      | (True, a1) \<Rightarrow> sendFinalProof evs a1)"

section \<open>Aggregating two proofs\<close>

text \<open>The failures of a store transaction with two writes: of its begin, its first and
  second write, and its commit.\<close>

type_synonym tx_failures = "error option \<times> error option \<times> error option \<times> error option"

record aggregate_env =
  ae_GetProofsToAggregate :: "error + state_Proof \<times> state_Proof"
  ae_lock :: tx_failures
  ae_Marshal :: "error + string"
  ae_AggregatedProof :: "string \<Rightarrow> string \<Rightarrow> error + string"
  ae_WaitRecursiveProof :: "string \<Rightarrow> error + string"
  ae_store :: tx_failures
  ae_final :: final_env
  ae_UpdateGeneratedProof :: "error option"
  ae_unlock :: tx_failures

definition unlockProofsToAggregate ::
  "tx_failures \<Rightarrow> state_Proof \<Rightarrow> state_Proof \<Rightarrow> Aggregator \<Rightarrow> error option \<times> Aggregator" where
  "unlockProofsToAggregate fl proof1 proof2 a =
     (case fl of (f_begin, f_first, f_second, f_commit) \<Rightarrow>
     (case BeginStateTransaction f_begin a of
        (Some err, a0) \<Rightarrow> (Some err, a0)
      | (None, a0) \<Rightarrow>
     (case UpdateGeneratedProof f_first (proof1\<lparr>Generating := False\<rparr>) OpenTx a0 of
        (Some err, a1) \<Rightarrow>
          (Some (Errorf ''Failed to release proof aggregation state '' err), Rollback a1)
      | (None, a1) \<Rightarrow>
     (case UpdateGeneratedProof f_second (proof2\<lparr>Generating := False\<rparr>) OpenTx a1 of
        (Some err, a2) \<Rightarrow>
          (Some (Errorf ''Failed to release proof aggregation state '' err), Rollback a2)
      | (None, a2) \<Rightarrow>
     (case Commit f_commit a2 of
        (Some err, a3) \<Rightarrow> (Some (Errorf ''Failed to release proof aggregation state '' err), a3)
      | (None, a3) \<Rightarrow> (None, a3))))))"

definition getAndLockProofsToAggregate ::
  "aggregate_env \<Rightarrow> Aggregator \<Rightarrow> (error + state_Proof \<times> state_Proof) \<times> Aggregator" where
  "getAndLockProofsToAggregate env a =
     (case ae_lock env of (f_begin, f_first, f_second, f_commit) \<Rightarrow>
     (case ae_GetProofsToAggregate env of
        Inl err \<Rightarrow> (Inl err, a)
      | Inr (proof1, proof2) \<Rightarrow>
     (case BeginStateTransaction f_begin a of
        (Some err, a0) \<Rightarrow> (Inl err, a0)
      | (None, a0) \<Rightarrow>
     (case UpdateGeneratedProof f_first (proof1\<lparr>Generating := True\<rparr>) OpenTx a0 of
        (Some err, a1) \<Rightarrow> (Inl (Errorf ''Failed to set proof aggregation state '' err), Rollback a1)
      | (None, a1) \<Rightarrow>
     (case UpdateGeneratedProof f_second (proof2\<lparr>Generating := True\<rparr>) OpenTx a1 of
        (Some err, a2) \<Rightarrow> (Inl (Errorf ''Failed to set proof aggregation state '' err), Rollback a2)
      | (None, a2) \<Rightarrow>
     (case Commit f_commit a2 of
        (Some err, a3) \<Rightarrow> (Inl (Errorf ''Failed to set proof aggregation state '' err), a3)
      | (None, a3) \<Rightarrow>
          (Inr (proof1\<lparr>Generating := True\<rparr>, proof2\<lparr>Generating := True\<rparr>), a3)))))))"

text \<open>A return of \<^verbatim>\<open>tryAggregateProofs\<close> with its local \<^verbatim>\<open>err\<close> set: the deferred
  function calls \<^verbatim>\<open>unlockProofsToAggregate(a.ctx, proof1, proof2)\<close> and logs its error.\<close>

definition tap_fail ::
  "aggregate_env \<Rightarrow> state_Proof \<Rightarrow> state_Proof \<Rightarrow> error \<Rightarrow> Aggregator
     \<Rightarrow> (bool \<times> error option) res \<times> Aggregator" where
  "tap_fail env proof1 proof2 err a =
     (case unlockProofsToAggregate (ae_unlock env) proof1 proof2 a of
        (err2, a1) \<Rightarrow> (Ret (False, Some err), a1))"

text \<open>Lines 574 to 617: store the aggregated proof in place of its two inputs, then try
  to build the final proof from it.\<close>

definition tap_store ::
  "aggregate_env \<Rightarrow> string \<Rightarrow> state_Proof \<Rightarrow> state_Proof \<Rightarrow> state_Proof \<Rightarrow> Aggregator
     \<Rightarrow> (bool \<times> error option) res \<times> Aggregator" where
  "tap_store env pid proof1 proof2 proof a =
     (case ae_store env of (f_begin, f_delete, f_add, f_commit) \<Rightarrow>
     (case BeginStateTransaction f_begin a of
        (Some err, a1) \<Rightarrow>
          tap_fail env proof1 proof2
            (Errorf ''Failed to begin transaction to update proof aggregation state '' err) a1
      | (None, a1) \<Rightarrow>
     (case DeleteGeneratedProofs f_delete (BatchNumber proof1) (BatchNumberFinal proof2) OpenTx a1 of
        (Some err, a2) \<Rightarrow>
          tap_fail env proof1 proof2
            (Errorf ''Failed to delete previously aggregated proofs '' err) (Rollback a2)
      | (None, a2) \<Rightarrow>
     (case AddGeneratedProof f_add proof OpenTx a2 of
        (Some err, a3) \<Rightarrow>
          tap_fail env proof1 proof2
            (Errorf ''Failed to store the recursive proof '' err) (Rollback a3)
      | (None, a3) \<Rightarrow>
     (case Commit f_commit a3 of
        (Some err, a4) \<Rightarrow>
          tap_fail env proof1 proof2 (Errorf ''Failed to store the recursive proof '' err) a4
      | (None, a4) \<Rightarrow>
     (case tryBuildFinalProof (ae_final env) pid (Some proof) a4 of
        (Panic, _, a5) \<Rightarrow> (Panic, a5)
      | (Blocked, _, a5) \<Rightarrow> (Blocked, a5)
      | (Ret (finalProofBuilt, Some err), _, a5) \<Rightarrow>
          tap_fail env proof1 proof2
            (Errorf ''Failed trying to check if recursive proof can be verified: '' err) a5
      | (Ret (finalProofBuilt, None), proof', a5) \<Rightarrow>
          if \<not> finalProofBuilt then
            (case UpdateGeneratedProof (ae_UpdateGeneratedProof env)
                    ((case proof' of Some p \<Rightarrow> p | None \<Rightarrow> proof)\<lparr>Generating := False\<rparr>) NilTx a5 of
               (Some err, a6) \<Rightarrow> tap_fail env proof1 proof2 err a6
             | (None, a6) \<Rightarrow> (Ret (True, None), a6))
          else (Ret (True, None), a5)))))))"

definition tryAggregateProofs ::
  "aggregate_env \<Rightarrow> string \<Rightarrow> Aggregator \<Rightarrow> (bool \<times> error option) res \<times> Aggregator" where
  "tryAggregateProofs env pid a =
     (case getAndLockProofsToAggregate env a of
        (Inl err0, a0) \<Rightarrow>
          if errors_Is err0 ErrNotFound then (Ret (False, None), a0)
          else (Ret (False, Some err0), a0)
      | (Inr (proof1, proof2), a0) \<Rightarrow>
     (case ae_Marshal env of
        Inl err \<Rightarrow>
          tap_fail env proof1 proof2 (Errorf ''Failed to serialize input prover, '' err) a0
      | Inr b \<Rightarrow>
     (let proof = \<lparr>BatchNumber = BatchNumber proof1, BatchNumberFinal = BatchNumberFinal proof2,
                   Proof = [], InputProver = b, ProofID = None, Prover = Some pid,
                   Generating = True\<rparr>
      in
      case ae_AggregatedProof env (Proof proof1) (Proof proof2) of
        Inl err \<Rightarrow>
          tap_fail env proof1 proof2 (Errorf ''Failed to get aggregated proof id, '' err) a0
      | Inr aggrProofID \<Rightarrow>
     (case ae_WaitRecursiveProof env aggrProofID of
        Inl err \<Rightarrow>
          tap_fail env proof1 proof2
            (Errorf ''Failed to get aggregated proof from prover, '' err) a0
      | Inr resRecursiveProof \<Rightarrow>
          tap_store env pid proof1 proof2
            (proof\<lparr>ProofID := Some aggrProofID, Proof := resRecursiveProof\<rparr>) a0))))"

section \<open>Proving one batch\<close>

record PublicInputs =
  OldStateRoot :: string
  OldAccInputHash :: string
  OldBatchNum :: u64
  ChainId :: u64
  BatchL2Data :: string
  GlobalExitRoot :: string
  EthTimestamp :: u64
  SequencerAddr :: string
  AggregatorAddr :: string

record pb_InputProver =
  pb_PublicInputs :: PublicInputs
  Db :: "(string \<times> string) list"
  ContractsBytecode :: "(string \<times> string) list"

record generate_env =
  ge_GetLastVerifiedBatch :: "error + state_Batch option"
  ge_GetVirtualBatchToProve :: "u64 \<Rightarrow> error + state_Batch"
  ge_IsProfitable :: "error + bool"
  ge_AddGeneratedProof :: "error option"
  ge_GetBatchByNumber :: "u64 \<Rightarrow> error + state_Batch"
  ge_GetPublicAddress :: "error + string"
  ge_Marshal :: "pb_InputProver \<Rightarrow> error + string"
  ge_BatchProof :: "pb_InputProver \<Rightarrow> error + string"
  ge_WaitRecursiveProof :: "string \<Rightarrow> error + string"
  ge_final :: final_env
  ge_UpdateGeneratedProof :: "error option"
  ge_DeleteGeneratedProofs :: "error option"

text \<open>\<^verbatim>\<open>getAndLockBatchToProve\<close> returns Go's triple \<^verbatim>\<open>(*state.Batch, *state.Proof, error)\<close>.
  For an unprofitable batch it executes \<^verbatim>\<open>return nil, nil, err\<close> with \<^verbatim>\<open>err\<close> the nil error
  of \<^verbatim>\<open>IsProfitable\<close>.\<close>

definition getAndLockBatchToProve ::
  "generate_env \<Rightarrow> string \<Rightarrow> Aggregator
     \<Rightarrow> (state_Batch option \<times> state_Proof option \<times> error option) res \<times> Aggregator" where
  "getAndLockBatchToProve env pid a =
     (case ge_GetLastVerifiedBatch env of
        Inl err \<Rightarrow> (Ret (None, None, Some err), a)
      | Inr None \<Rightarrow> (Panic, a)
      | Inr (Some lastVerifiedBatch) \<Rightarrow>
     (case ge_GetVirtualBatchToProve env (batch_BatchNumber lastVerifiedBatch) of
        Inl err \<Rightarrow> (Ret (None, None, Some err), a)
      | Inr batchToVerify \<Rightarrow>
     (case ge_IsProfitable env of
        Inl err \<Rightarrow> (Ret (None, None, Some err), a)
      | Inr isProfitable \<Rightarrow>
          if \<not> isProfitable then (Ret (None, None, None), a)
          else
            (let proof = \<lparr>BatchNumber = batch_BatchNumber batchToVerify,
                          BatchNumberFinal = batch_BatchNumber batchToVerify,
                          Proof = [], InputProver = [], ProofID = None, Prover = Some pid,
                          Generating = True\<rparr>
             in
             case AddGeneratedProof (ge_AddGeneratedProof env) proof NilTx a of
               (Some err, a1) \<Rightarrow> (Ret (None, None, Some err), a1)
             | (None, a1) \<Rightarrow> (Ret (Some batchToVerify, Some proof, None), a1)))))"

text \<open>\<^verbatim>\<open>buildInputProver\<close>. When \<^verbatim>\<open>GetBatchByNumber\<close> fails with \<^verbatim>\<open>ErrStateNotSynchronized\<close>
  the function goes on and reads \<^verbatim>\<open>previousBatch.StateRoot\<close> through the nil pointer.\<close>

definition buildInputProver ::
  "generate_env \<Rightarrow> Aggregator \<Rightarrow> state_Batch \<Rightarrow> (error + pb_InputProver) res" where
  "buildInputProver env a batchToVerify =
     (case ge_GetBatchByNumber env (batch_BatchNumber batchToVerify - 1) of
        Inl err \<Rightarrow>
          if err \<noteq> ErrStateNotSynchronized
          then Ret (Inl (ErrOther ''Failed to get previous batch''))
          else
            (case ge_GetPublicAddress env of
               Inl err1 \<Rightarrow> Ret (Inl (Errorf ''failed to get public address, err: '' err1))
             | Inr pubAddr \<Rightarrow> Panic)
      | Inr previousBatch \<Rightarrow>
          (case ge_GetPublicAddress env of
             Inl err1 \<Rightarrow> Ret (Inl (Errorf ''failed to get public address, err: '' err1))
           | Inr pubAddr \<Rightarrow>
               Ret (Inr \<lparr>pb_PublicInputs =
                          \<lparr>OldStateRoot = batch_StateRoot previousBatch,
                           OldAccInputHash = batch_AccInputHash previousBatch,
                           OldBatchNum = batch_BatchNumber previousBatch,
                           ChainId = cfg_ChainID a,
                           BatchL2Data = batch_BatchL2Data batchToVerify,
                           GlobalExitRoot = batch_GlobalExitRoot batchToVerify,
                           EthTimestamp = word_of_int (batch_Timestamp batchToVerify div 1000000000),
                           SequencerAddr = batch_Coinbase batchToVerify,
                           AggregatorAddr = pubAddr\<rparr>,
                        Db = [], ContractsBytecode = []\<rparr>)))"

text \<open>A return of \<^verbatim>\<open>tryGenerateBatchProof\<close> with its local \<^verbatim>\<open>err\<close> set: the deferred
  function deletes the proof row and logs the error of the deletion.\<close>

definition tgbp_fail ::
  "generate_env \<Rightarrow> state_Proof \<Rightarrow> error \<Rightarrow> Aggregator
     \<Rightarrow> (bool \<times> error option) res \<times> Aggregator" where
  "tgbp_fail env proof err a =
     (case DeleteGeneratedProofs (ge_DeleteGeneratedProofs env)
             (BatchNumber proof) (BatchNumberFinal proof) NilTx a of
        (err2, a1) \<Rightarrow> (Ret (False, Some err), a1))"

text \<open>Lines 694 to 749, with the batch and the proof row that were locked.\<close>

definition tgbp_prove ::
  "generate_env \<Rightarrow> string \<Rightarrow> state_Batch \<Rightarrow> state_Proof \<Rightarrow> Aggregator
     \<Rightarrow> (bool \<times> error option) res \<times> Aggregator" where
  "tgbp_prove env pid batchToProve proof a =
     (case buildInputProver env a batchToProve of
        Panic \<Rightarrow> (Panic, a)
      | Blocked \<Rightarrow> (Blocked, a)
      | Ret (Inl err) \<Rightarrow> tgbp_fail env proof (Errorf ''Failed to build input prover, '' err) a
      | Ret (Inr inputProver) \<Rightarrow>
     (case ge_Marshal env inputProver of
        Inl err \<Rightarrow> tgbp_fail env proof (Errorf ''Failed to serialize input prover, '' err) a
      | Inr b \<Rightarrow>
     (case ge_BatchProof env inputProver of
        Inl err \<Rightarrow>
          tgbp_fail env (proof\<lparr>InputProver := b\<rparr>) (Errorf ''Failed to get batch proof id '' err) a
      | Inr genProofID \<Rightarrow>
     (case ge_WaitRecursiveProof env genProofID of
        Inl err \<Rightarrow>
          tgbp_fail env (proof\<lparr>InputProver := b, ProofID := Some genProofID\<rparr>)
            (Errorf ''Failed to get proof from prover '' err) a
      | Inr resGetProof \<Rightarrow>
     (let proof1 = proof\<lparr>InputProver := b, ProofID := Some genProofID, Proof := resGetProof\<rparr> in
      case tryBuildFinalProof (ge_final env) pid (Some proof1) a of
        (Panic, _, a1) \<Rightarrow> (Panic, a1)
      | (Blocked, _, a1) \<Rightarrow> (Blocked, a1)
      | (Ret (finalProofBuilt, Some err), proof', a1) \<Rightarrow>
          tgbp_fail env (case proof' of Some p \<Rightarrow> p | None \<Rightarrow> proof1)
            (Errorf ''Failed trying to build final proof '' err) a1
      | (Ret (finalProofBuilt, None), proof', a1) \<Rightarrow>
          if \<not> finalProofBuilt then
            (let proof2 = (case proof' of Some p \<Rightarrow> p | None \<Rightarrow> proof1)\<lparr>Generating := False\<rparr> in
             case UpdateGeneratedProof (ge_UpdateGeneratedProof env) proof2 NilTx a1 of
               (Some err, a2) \<Rightarrow> tgbp_fail env proof2 err a2
             | (None, a2) \<Rightarrow> (Ret (True, None), a2))
          else (Ret (True, None), a1))))))"

definition tryGenerateBatchProof ::
  "generate_env \<Rightarrow> string \<Rightarrow> Aggregator \<Rightarrow> (bool \<times> error option) res \<times> Aggregator" where
  "tryGenerateBatchProof env pid a =
     (case getAndLockBatchToProve env pid a of
        (Panic, a0) \<Rightarrow> (Panic, a0)
      | (Blocked, a0) \<Rightarrow> (Blocked, a0)
      | (Ret (batchToProve, proof, Some err0), a0) \<Rightarrow>
          if errors_Is err0 ErrNotFound then (Ret (False, None), a0)
          else (Ret (False, Some err0), a0)
      | (Ret (batchToProve, proof, None), a0) \<Rightarrow>
          (case batchToProve of
             None \<Rightarrow> (Panic, a0)
           | Some batch \<Rightarrow>
               (case proof of
                  None \<Rightarrow> (Panic, a0)
                | Some p \<Rightarrow> tgbp_prove env pid batch p a0)))"

section \<open>The monitored transaction\<close>





section \<open>Auxiliary definitions and concrete runs\<close>

text \<open>The number \<^verbatim>\<open>tryBuildFinalProof\<close> takes as \<^verbatim>\<open>lastVerifiedBatchNum\<close> (lines 332 to
  339) from the answer of \<^verbatim>\<open>GetLastVerifiedBatch\<close>: 0 when there is no verified batch
  yet; \<open>None\<close> when the answer is an error that makes the function return.\<close>

definition lastVerifiedBatchNum :: "error + state_Batch option \<Rightarrow> u64 option" where
  "lastVerifiedBatchNum r =
     (case r of
        Inl err \<Rightarrow> if errors_Is err ErrNotFound then Some 0 else None
      | Inr None \<Rightarrow> Some 0
      | Inr (Some lastVerifiedBatch) \<Rightarrow> Some (batch_BatchNumber lastVerifiedBatch))"

text \<open>The inputs of the L1 call that the dispatcher builds from a message and the
  final batch row (lines 221 to 225).\<close>

definition submission_inputs :: "finalProofMsg \<Rightarrow> state_Batch \<Rightarrow> FinalProofInputs" where
  "submission_inputs msg finalBatch =
     \<lparr>in_FinalProof = finalProof msg, in_NewLocalExitRoot = batch_LocalExitRoot finalBatch,
      in_NewStateRoot = batch_StateRoot finalBatch\<rparr>"

text \<open>A store with the batch proofs of batches 11 and 12, batch 10 verified last, and
  a gate whose deadline is the instant 100.\<close>

definition ex_batch :: "u64 \<Rightarrow> state_Batch" where
  "ex_batch n = \<lparr>batch_BatchNumber = n, batch_StateRoot = ''state-root'',
     batch_LocalExitRoot = ''exit-root'', batch_AccInputHash = ''acc-input-hash'',
     batch_GlobalExitRoot = ''global-exit-root'', batch_Timestamp = 0,
     batch_Coinbase = ''0xsequencer'', batch_BatchL2Data = ''l2-data''\<rparr>"

definition ex_proof :: "u64 \<Rightarrow> u64 \<Rightarrow> state_Proof" where
  "ex_proof lo hi = \<lparr>BatchNumber = lo, BatchNumberFinal = hi, Proof = ''recursive-proof'',
     InputProver = ''{}'', ProofID = Some ''proof-id'', Prover = Some ''prover-1'',
     Generating = False\<rparr>"

definition ex_aggregator :: Aggregator where
  "ex_aggregator = \<lparr>TimeSendFinalProof = 100, verifyingProof = False,
     cfg_VerifyProofInterval = 60, cfg_ChainID = 1001,
     State_proofs = [ex_proof 11 11, ex_proof 12 12], State_tx = None,
     finalProofChan = [], trace = []\<rparr>"

definition ex_FinalProof :: "string \<Rightarrow> string \<Rightarrow> FinalProof" where
  "ex_FinalProof sr ler =
     \<lparr>fp_Proof = ''final-proof'', Public = Some \<lparr>NewStateRoot = sr, NewLocalExitRoot = ler\<rparr>\<rparr>"

text \<open>A call of \<^verbatim>\<open>tryBuildFinalProof\<close> at the instant 200: the synchronizer has caught up
  at the second poll, no proof is ready to verify, and the mock prover answers.\<close>

definition ex_final_env :: final_env where
  "ex_final_env = \<lparr>fe_now = 200,
     fe_polls = [(Inr (Some (ex_batch 9)), Inr 10), (Inr (Some (ex_batch 10)), Inr 10)],
     fe_GetLastVerifiedBatch = Inr (Some (ex_batch 10)),
     fe_GetProofReadyToVerify = (\<lambda>n. Inl ErrNotFound),
     fe_lock = None,
     fe_CheckProofContainsCompleteSequences = (\<lambda>p. Inr True),
     fe_GetPublicAddress = Inr ''0xaggregator'',
     fe_FinalProof = (\<lambda>p addr. Inr ''final-proof-id''),
     fe_WaitFinalProof = (\<lambda>i. Inr (Some (ex_FinalProof mockedStateRoot mockedLocalExitRoot))),
     fe_GetBatchByNumber = (\<lambda>n. Inr (ex_batch n)),
     fe_ctxDone = False,
     fe_unlock = None\<rparr>"

text \<open>The dispatcher receives the final proof of the aggregated proof of batches 11 to
  12: the submission succeeds and the synchronizer has caught up at the second poll
  (\<open>ex_send_env\<close>), or the submission fails (\<open>ex_send_failing\<close>), or the final batch
  row cannot be read (\<open>ex_send_no_batch\<close>).\<close>

definition ex_msg :: finalProofMsg where
  "ex_msg = \<lparr>proverID = ''prover-1'', recursiveProof = (ex_proof 11 12)\<lparr>Generating := True\<rparr>,
     finalProof = ex_FinalProof ''state-root'' ''exit-root''\<rparr>"

definition ex_dispatching :: Aggregator where
  "ex_dispatching = ex_aggregator\<lparr>verifyingProof := True,
     State_proofs := [(ex_proof 11 12)\<lparr>Generating := True\<rparr>]\<rparr>"

definition ex_send_env :: send_env where
  "ex_send_env = \<lparr>se_GetBatchByNumber = (\<lambda>n. Inr (ex_batch n)),
     se_VerifyBatches = (\<lambda>lo hi inputs. None),
     se_unlock = None,
     se_polls = [(Inr (Some (ex_batch 10)), Inr 12), (Inr (Some (ex_batch 12)), Inr 12)],
     se_now = 300,
     se_DeleteGeneratedProofs = None\<rparr>"

definition ex_send_failing :: send_env where
  "ex_send_failing = ex_send_env\<lparr>se_VerifyBatches := (\<lambda>lo hi inputs. Some (ErrOther ''L1 unreachable''))\<rparr>"


text \<open>A session aggregates the proofs of batches 11 and 12; the gate is open and the
  aggregated proof is eligible, but the prover refuses the final proof.\<close>

definition ex_aggregate_env :: aggregate_env where
  "ex_aggregate_env = \<lparr>ae_GetProofsToAggregate = Inr (ex_proof 11 11, ex_proof 12 12),
     ae_lock = (None, None, None, None),
     ae_Marshal = Inr ''{recursive_proof_1, recursive_proof_2}'',
     ae_AggregatedProof = (\<lambda>p1 p2. Inr ''aggregated-proof-id''),
     ae_WaitRecursiveProof = (\<lambda>i. Inr ''aggregated-proof''),
     ae_store = (None, None, None, None),
     ae_final = ex_final_env\<lparr>fe_FinalProof := (\<lambda>p addr. Inl (ErrOther ''prover unavailable''))\<rparr>,
     ae_UpdateGeneratedProof = None,
     ae_unlock = (None, None, None, None)\<rparr>"

text \<open>A session looks for a batch to prove when batch 13 is the next virtual batch and
  the profitability checker says no.\<close>

definition ex_generate_env :: generate_env where
  "ex_generate_env = \<lparr>ge_GetLastVerifiedBatch = Inr (Some (ex_batch 10)),
     ge_GetVirtualBatchToProve = (\<lambda>n. Inr (ex_batch 13)),
     ge_IsProfitable = Inr False,
     ge_AddGeneratedProof = None,
     ge_GetBatchByNumber = (\<lambda>n. Inr (ex_batch n)),
     ge_GetPublicAddress = Inr ''0xaggregator'',
     ge_Marshal = (\<lambda>i. Inr ''{public_inputs}''),
     ge_BatchProof = (\<lambda>i. Inr ''batch-proof-id''),
     ge_WaitRecursiveProof = (\<lambda>i. Inr ''batch-proof''),
     ge_final = ex_final_env,
     ge_UpdateGeneratedProof = None,
     ge_DeleteGeneratedProofs = None\<rparr>"

section \<open>Properties of the gate\<close>

lemma run_gate_deadline:
  "(t, r) \<in> set (run_gate calls a) \<Longrightarrow> t \<le> TimeSendFinalProof a \<Longrightarrow> \<not> r"
proof (induction calls a rule: run_gate.induct)
  case (1 a)
  then show ?case by simp
next
  case (2 t' cs a)
  then show ?case by (auto simp: canVerifyProof_def split: if_splits)
next
  case (3 t' cs a)
  then show ?case by (auto simp: enableProofVerification_def emit_def)
qed

text \<open>
  C4, as the code has it: \<^verbatim>\<open>canVerifyProof\<close> returns true and sets \<open>verifyingProof\<close> exactly
  when the deadline \<open>TimeSendFinalProof\<close> is strictly before the current time and
  \<open>verifyingProof\<close> is false; in every other case it returns false and changes nothing.
\<close>

theorem canVerifyProof_iff:
  "canVerifyProof now a =
     (if TimeSendFinalProof a < now \<and> \<not> verifyingProof a
      then (True, a\<lparr>verifyingProof := True\<rparr>) else (False, a))"
  by (simp add: canVerifyProof_def)

theorem canVerifyProof_iff_witness:
  "canVerifyProof 101 ex_aggregator = (True, ex_aggregator\<lparr>verifyingProof := True\<rparr>)"
  using canVerifyProof_iff [of 101 ex_aggregator] by (simp add: ex_aggregator_def)

text \<open>At the boundary instant, the current time equal to the deadline and
  \<open>verifyingProof\<close> false, \<^verbatim>\<open>canVerifyProof\<close> returns false: \<^verbatim>\<open>Before\<close> is strict.\<close>

theorem canVerifyProof_boundary_counterexample:
  "TimeSendFinalProof ex_aggregator \<le> 100 \<and> \<not> verifyingProof ex_aggregator \<and>
   canVerifyProof 100 ex_aggregator = (False, ex_aggregator)"
  by (simp add: canVerifyProof_def ex_aggregator_def)

text \<open>
  C7: after \<^verbatim>\<open>resetVerifyProofTime\<close> at the instant \<open>t0\<close>, every call of \<^verbatim>\<open>canVerifyProof\<close>
  made while no more than \<open>VerifyProofInterval\<close> has elapsed returns false, whatever calls
  of \<^verbatim>\<open>canVerifyProof\<close> and \<^verbatim>\<open>enableProofVerification\<close> are made in between and at whatever
  instants.
\<close>

theorem gate_closed_after_reset:
  "(t, r) \<in> set (run_gate calls (resetVerifyProofTime t0 a)) \<Longrightarrow>
   t - t0 \<le> cfg_VerifyProofInterval a \<Longrightarrow> \<not> r"
  using run_gate_deadline [of t r calls "resetVerifyProofTime t0 a"]
  by (simp add: resetVerifyProofTime_def emit_def)

theorem gate_closed_after_reset_witness:
  "(160, False) \<in> set (run_gate [(CallCanVerifyProof, 130), (CallEnableProofVerification, 140),
       (CallCanVerifyProof, 160), (CallCanVerifyProof, 161)] (resetVerifyProofTime 100 ex_aggregator))
   \<and> (160, True) \<notin> set (run_gate [(CallCanVerifyProof, 130), (CallEnableProofVerification, 140),
       (CallCanVerifyProof, 160), (CallCanVerifyProof, 161)] (resetVerifyProofTime 100 ex_aggregator))
   \<and> (160::int) - 100 \<le> cfg_VerifyProofInterval ex_aggregator"
proof -
  have "(160, False) \<in> set (run_gate [(CallCanVerifyProof, 130), (CallEnableProofVerification, 140),
       (CallCanVerifyProof, 160), (CallCanVerifyProof, 161)] (resetVerifyProofTime 100 ex_aggregator))"
    by (simp add: canVerifyProof_def resetVerifyProofTime_def enableProofVerification_def
          emit_def ex_aggregator_def)
  moreover have i: "(160::int) - 100 \<le> cfg_VerifyProofInterval ex_aggregator"
    by (simp add: ex_aggregator_def)
  moreover have "(160, True) \<notin> set (run_gate [(CallCanVerifyProof, 130),
       (CallEnableProofVerification, 140), (CallCanVerifyProof, 160), (CallCanVerifyProof, 161)]
       (resetVerifyProofTime 100 ex_aggregator))"
    using gate_closed_after_reset [of 160 True _ 100 ex_aggregator, OF _ i] by blast
  ultimately show ?thesis by blast
qed

section \<open>Properties of the monitored transaction\<close>



section \<open>Properties of the final-proof attempt\<close>

lemma waitSynced_frame:
  "waitSynced polls a = (b, a') \<Longrightarrow>
     verifyingProof a' = verifyingProof a \<and> TimeSendFinalProof a' = TimeSendFinalProof a \<and>
     cfg_VerifyProofInterval a' = cfg_VerifyProofInterval a \<and>
     State_proofs a' = State_proofs a \<and> State_tx a' = State_tx a \<and>
     finalProofChan a' = finalProofChan a"
  by (induction polls arbitrary: a) (auto simp: emit_def split: if_splits)

lemma tryBuildFinalProof_reaches_select:
  assumes "canVerifyProof (fe_now env) a = (True, a0)"
      and "waitSynced (fe_polls env) a0 = (True, a1)"
      and "lastVerifiedBatchNum (fe_GetLastVerifiedBatch env) = Some lv"
  shows "tryBuildFinalProof env pid proof a = tbfp_select env pid lv proof a1"
  using assms
  by (auto simp: tryBuildFinalProof_def lastVerifiedBatchNum_def
           split: sum.splits option.splits if_splits)

lemma gate_taken:
  assumes "canVerifyProof now a = (True, a0)"
      and "waitSynced polls a0 = (True, a1)"
  shows "verifyingProof a1 \<and> State_proofs a1 = State_proofs a \<and> TimeSendFinalProof a1 = TimeSendFinalProof a"
proof -
  from assms(1) have "a0 = a\<lparr>verifyingProof := True\<rparr>"
    by (auto simp: canVerifyProof_def split: if_splits)
  with waitSynced_frame [OF assms(2)] show ?thesis by simp
qed



text \<open>
  C9: in a call of \<^verbatim>\<open>tryBuildFinalProof\<close> without a proof that has passed the gate, when
  the store has no proof ready to verify (\<^verbatim>\<open>ErrNotFound\<close>), the call returns \<open>(false, nil)\<close>,
  \<open>verifyingProof\<close> is false again at the return, and the proof table is as it was.
\<close>

theorem tryBuildFinalProof_not_found:
  assumes "canVerifyProof (fe_now env) a = (True, a0)"
      and "waitSynced (fe_polls env) a0 = (True, a1)"
      and "lastVerifiedBatchNum (fe_GetLastVerifiedBatch env) = Some lv"
      and "fe_GetProofReadyToVerify env lv = Inl err"
      and "errors_Is err ErrNotFound"
  shows "tryBuildFinalProof env pid None a = (Ret (False, None), None, enableProofVerification a1)
       \<and> \<not> verifyingProof (snd (snd (tryBuildFinalProof env pid None a)))
       \<and> State_proofs (snd (snd (tryBuildFinalProof env pid None a))) = State_proofs a"
proof -
  have sel: "tryBuildFinalProof env pid None a = tbfp_select env pid lv None a1"
    by (rule tryBuildFinalProof_reaches_select [OF assms(1,2,3)])
  have r: "tbfp_select env pid lv None a1 = (Ret (False, None), None, enableProofVerification a1)"
    using assms(4,5) by (simp add: tbfp_select_def getAndLockProofReadyToVerify_def)
  show ?thesis
    using gate_taken [OF assms(1,2)]
    by (simp add: sel r enableProofVerification_def emit_def)
qed

theorem tryBuildFinalProof_not_found_witness:
  "tryBuildFinalProof ex_final_env ''prover-1'' None ex_aggregator =
     (Ret (False, None), None,
      ex_aggregator\<lparr>verifyingProof := False,
        trace := [EvIsSynced False, EvSleep, EvIsSynced True, EvEnableProofVerification]\<rparr>)"
proof -
  have h1: "canVerifyProof (fe_now ex_final_env) ex_aggregator =
              (True, ex_aggregator\<lparr>verifyingProof := True\<rparr>)"
    by (simp add: canVerifyProof_def ex_final_env_def ex_aggregator_def)
  have h2: "waitSynced (fe_polls ex_final_env) (ex_aggregator\<lparr>verifyingProof := True\<rparr>) =
              (True, ex_aggregator\<lparr>verifyingProof := True,
                 trace := [EvIsSynced False, EvSleep, EvIsSynced True]\<rparr>)"
    by (simp add: ex_final_env_def isSynced_def ex_batch_def emit_def ex_aggregator_def)
  have h3: "lastVerifiedBatchNum (fe_GetLastVerifiedBatch ex_final_env) = Some 10"
    by (simp add: lastVerifiedBatchNum_def ex_final_env_def ex_batch_def)
  have h4: "fe_GetProofReadyToVerify ex_final_env 10 = Inl ErrNotFound"
    by (simp add: ex_final_env_def)
  have h5: "errors_Is ErrNotFound ErrNotFound" by simp
  from tryBuildFinalProof_not_found [OF h1 h2 h3 h4 h5, of "''prover-1''"]
  show ?thesis by (simp add: enableProofVerification_def emit_def ex_aggregator_def)
qed

text \<open>
  C8: when the prover has returned a final proof, \<^verbatim>\<open>buildFinalProof\<close> overwrites both
  \<open>NewStateRoot\<close> and \<open>NewLocalExitRoot\<close> with the values of the final batch row if both
  equal the mock prover's constants (and returns an error when that row cannot be read);
  if one of them or none does, it returns the final proof as the prover gave it.
\<close>

theorem buildFinalProof_mock_substitution:
  assumes "fe_GetPublicAddress env = Inr addr"
      and "fe_FinalProof env (Proof proof) addr = Inr fid"
      and "fe_WaitFinalProof env fid = Inr (Some fp)"
      and "Public fp = Some pub"
  shows "fst (buildFinalProof env proof) =
     (if NewStateRoot pub = mockedStateRoot \<and> NewLocalExitRoot pub = mockedLocalExitRoot then
        (case fe_GetBatchByNumber env (BatchNumberFinal proof) of
           Inl err \<Rightarrow> Ret (None, Some (ErrOther ''Failed to retrieve batch with number''))
         | Inr finalBatch \<Rightarrow>
             Ret (Some (fp\<lparr>Public := Some (pub\<lparr>NewStateRoot := batch_StateRoot finalBatch,
                    NewLocalExitRoot := batch_LocalExitRoot finalBatch\<rparr>)\<rparr>), None))
      else Ret (Some fp, None))"
  using assms by (simp add: buildFinalProof_def Let_def split: sum.splits)


theorem buildFinalProof_mock_substitution_witness:
  "fst (buildFinalProof ex_final_env (ex_proof 11 12)) =
     Ret (Some (ex_FinalProof ''state-root'' ''exit-root''), None)
   \<and> fst (buildFinalProof
       (ex_final_env\<lparr>fe_WaitFinalProof :=
          (\<lambda>i. Inr (Some (ex_FinalProof mockedStateRoot ''0x00'')))\<rparr>) (ex_proof 11 12)) =
     Ret (Some (ex_FinalProof mockedStateRoot ''0x00''), None)"
proof -
  have a1: "fe_GetPublicAddress ex_final_env = Inr ''0xaggregator''"
    by (simp add: ex_final_env_def)
  have a2: "fe_FinalProof ex_final_env (Proof (ex_proof 11 12)) ''0xaggregator'' = Inr ''final-proof-id''"
    by (simp add: ex_final_env_def)
  have a3: "fe_WaitFinalProof ex_final_env ''final-proof-id'' =
              Inr (Some (ex_FinalProof mockedStateRoot mockedLocalExitRoot))"
    by (simp add: ex_final_env_def)
  have a4: "Public (ex_FinalProof mockedStateRoot mockedLocalExitRoot) =
              Some \<lparr>NewStateRoot = mockedStateRoot, NewLocalExitRoot = mockedLocalExitRoot\<rparr>"
    by (simp add: ex_FinalProof_def)
  have l: "fst (buildFinalProof ex_final_env (ex_proof 11 12)) =
     Ret (Some (ex_FinalProof ''state-root'' ''exit-root''), None)"
    using buildFinalProof_mock_substitution [OF a1 a2 a3 a4]
    by (simp add: ex_final_env_def ex_FinalProof_def ex_batch_def)
  let ?env = "ex_final_env\<lparr>fe_WaitFinalProof :=
          (\<lambda>i. Inr (Some (ex_FinalProof mockedStateRoot ''0x00'')))\<rparr>"
  have b1: "fe_GetPublicAddress ?env = Inr ''0xaggregator''"
    by (simp add: ex_final_env_def)
  have b2: "fe_FinalProof ?env (Proof (ex_proof 11 12)) ''0xaggregator'' = Inr ''final-proof-id''"
    by (simp add: ex_final_env_def)
  have b3: "fe_WaitFinalProof ?env ''final-proof-id'' =
              Inr (Some (ex_FinalProof mockedStateRoot ''0x00''))"
    by simp
  have b4: "Public (ex_FinalProof mockedStateRoot ''0x00'') =
              Some \<lparr>NewStateRoot = mockedStateRoot, NewLocalExitRoot = ''0x00''\<rparr>"
    by (simp add: ex_FinalProof_def)
  have r: "fst (buildFinalProof ?env (ex_proof 11 12)) =
     Ret (Some (ex_FinalProof mockedStateRoot ''0x00''), None)"
    using buildFinalProof_mock_substitution [OF b1 b2 b3 b4]
    by (simp add: mockedLocalExitRoot_def)
  from l r show ?thesis by blast
qed

section \<open>Properties of the dispatcher\<close>



lemma update_rows_ranges:
  "map (\<lambda>r. (BatchNumber r, BatchNumberFinal r)) (update_rows p rs) =
   map (\<lambda>r. (BatchNumber r, BatchNumberFinal r)) rs"
  by (induction rs) (auto simp: update_rows_def same_range_def)

text \<open>
  C5: when the dispatcher has received a message and the L1 submission
  (\<^verbatim>\<open>VerifyBatches\<close>) fails, it writes the recursive proof back with \<open>Generating\<close> false,
  calls \<^verbatim>\<open>enableProofVerification\<close>, so that \<open>verifyingProof\<close> is false and the deadline
  \<open>TimeSendFinalProof\<close> is what it was, deletes no row of the proof table, and goes on
  with the next message. The row changes only if the store accepts the write.
\<close>

theorem sendFinalProof_submission_failure:
  assumes "se_GetBatchByNumber env (BatchNumberFinal (recursiveProof msg)) = Inr finalBatch"
      and "se_VerifyBatches env (BatchNumber (recursiveProof msg) - 1)
             (BatchNumberFinal (recursiveProof msg)) (submission_inputs msg finalBatch) = Some err"
      and "a' = snd (sendFinalProof_msg env msg a)"
      and "unlocked = (recursiveProof msg)\<lparr>Generating := False\<rparr>"
  shows "sendFinalProof (Receive msg env # evs) a = sendFinalProof evs a'
       \<and> trace a' = trace a @
           [EvVerifyBatches (BatchNumber (recursiveProof msg) - 1)
              (BatchNumberFinal (recursiveProof msg)) (submission_inputs msg finalBatch),
            EvUpdateGeneratedProof unlocked, EvEnableProofVerification]
       \<and> \<not> verifyingProof a'
       \<and> TimeSendFinalProof a' = TimeSendFinalProof a
       \<and> State_proofs a' =
           (if se_unlock env = None then update_rows unlocked (State_proofs a) else State_proofs a)
       \<and> map (\<lambda>r. (BatchNumber r, BatchNumberFinal r)) (State_proofs a') =
           map (\<lambda>r. (BatchNumber r, BatchNumberFinal r)) (State_proofs a)"
  using assms
  by (auto simp: sendFinalProof_msg_def submission_inputs_def Let_def UpdateGeneratedProof_def
        store_exec_def enableProofVerification_def emit_def update_rows_ranges
        split: option.splits)

theorem sendFinalProof_submission_failure_witness:
  "sendFinalProof [Receive ex_msg ex_send_failing, CtxDone] ex_dispatching =
     (Ret (), ex_dispatching\<lparr>verifyingProof := False, State_proofs := [ex_proof 11 12],
        trace := [EvVerifyBatches 10 12 (submission_inputs ex_msg (ex_batch 12)),
                  EvUpdateGeneratedProof (ex_proof 11 12), EvEnableProofVerification]\<rparr>)"
proof -
  have h1: "se_GetBatchByNumber ex_send_failing (BatchNumberFinal (recursiveProof ex_msg)) =
              Inr (ex_batch 12)"
    by (simp add: ex_send_failing_def ex_send_env_def ex_msg_def ex_proof_def)
  have h2: "se_VerifyBatches ex_send_failing (BatchNumber (recursiveProof ex_msg) - 1)
              (BatchNumberFinal (recursiveProof ex_msg)) (submission_inputs ex_msg (ex_batch 12)) =
              Some (ErrOther ''L1 unreachable'')"
    by (simp add: ex_send_failing_def ex_send_env_def)
  have step: "sendFinalProof [Receive ex_msg ex_send_failing, CtxDone] ex_dispatching =
                sendFinalProof [CtxDone] (snd (sendFinalProof_msg ex_send_failing ex_msg ex_dispatching))"
    using sendFinalProof_submission_failure [OF h1 h2 refl refl, of "[CtxDone]" ex_dispatching]
    by blast
  have run: "snd (sendFinalProof_msg ex_send_failing ex_msg ex_dispatching) =
               ex_dispatching\<lparr>verifyingProof := False, State_proofs := [ex_proof 11 12],
                 trace := [EvVerifyBatches 10 12 (submission_inputs ex_msg (ex_batch 12)),
                   EvUpdateGeneratedProof (ex_proof 11 12), EvEnableProofVerification]\<rparr>"
    by (simp add: sendFinalProof_msg_def submission_inputs_def UpdateGeneratedProof_def
          store_exec_def update_rows_def same_range_def enableProofVerification_def emit_def
          ex_send_failing_def ex_send_env_def ex_msg_def ex_dispatching_def ex_aggregator_def
          ex_proof_def ex_batch_def)
  show ?thesis unfolding step run by simp
qed




section \<open>Failures of the pipeline operations\<close>

text \<open>
  C1 asks that no failed pipeline operation leaves a proof row with \<open>Generating\<close> true.
  \<^verbatim>\<open>tryAggregateProofs\<close> breaks it: once the aggregated proof has replaced its two inputs
  in the store, a failure of \<^verbatim>\<open>tryBuildFinalProof\<close> makes the deferred function unlock the
  two inputs, which are rows no more, and the aggregated row stays with \<open>Generating\<close> true.
  Here the operation returns an error and the table holds that row alone.
\<close>

theorem tryAggregateProofs_leaks_generating:
  "fst (tryAggregateProofs ex_aggregate_env ''prover-1'' ex_aggregator) =
     Ret (False, Some (Errorf ''Failed trying to check if recursive proof can be verified: ''
       (Errorf ''Failed to build final proof, ''
         (Errorf ''Failed to get final proof id, '' (ErrOther ''prover unavailable'')))))
   \<and> State_proofs (snd (tryAggregateProofs ex_aggregate_env ''prover-1'' ex_aggregator)) =
     [\<lparr>BatchNumber = 11, BatchNumberFinal = 12, Proof = ''aggregated-proof'',
       InputProver = ''{recursive_proof_1, recursive_proof_2}'',
       ProofID = Some ''aggregated-proof-id'', Prover = Some ''prover-1'', Generating = True\<rparr>]"
  by (simp add: tryAggregateProofs_def getAndLockProofsToAggregate_def tap_store_def tap_fail_def
        unlockProofsToAggregate_def tryBuildFinalProof_def tbfp_select_def tbfp_build_def
        tbfp_release_def buildFinalProof_def validateEligibleFinalProof_def
        canVerifyProof_def enableProofVerification_def isSynced_def emit_def
        BeginStateTransaction_def Commit_def Rollback_def UpdateGeneratedProof_def
        DeleteGeneratedProofs_def AddGeneratedProof_def store_exec_def update_rows_def
        delete_rows_def same_range_def
        ex_aggregate_env_def ex_final_env_def ex_aggregator_def ex_proof_def ex_batch_def)

text \<open>
  C2 asks that a call of \<^verbatim>\<open>tryGenerateBatchProof\<close> whose batch the profitability policy
  rejects returns \<open>(false, nil)\<close> without a crash. The code does not: for such a batch
  \<^verbatim>\<open>getAndLockBatchToProve\<close> returns \<open>(nil, nil, nil)\<close>, the caller takes the nil error for
  success and reads \<^verbatim>\<open>batchToProve.BatchNumber\<close> through the nil pointer, which panics. No
  proof row has been inserted by then.
\<close>

theorem tryGenerateBatchProof_unprofitable_panics:
  assumes "ge_GetLastVerifiedBatch env = Inr (Some lastVerifiedBatch)"
      and "ge_GetVirtualBatchToProve env (batch_BatchNumber lastVerifiedBatch) = Inr batchToVerify"
      and "ge_IsProfitable env = Inr False"
  shows "getAndLockBatchToProve env pid a = (Ret (None, None, None), a)
       \<and> tryGenerateBatchProof env pid a = (Panic, a)"
  using assms by (simp add: tryGenerateBatchProof_def getAndLockBatchToProve_def)

theorem tryGenerateBatchProof_unprofitable_panics_witness:
  "tryGenerateBatchProof ex_generate_env ''prover-1'' ex_aggregator = (Panic, ex_aggregator)"
proof -
  have h1: "ge_GetLastVerifiedBatch ex_generate_env = Inr (Some (ex_batch 10))"
    by (simp add: ex_generate_env_def)
  have h2: "ge_GetVirtualBatchToProve ex_generate_env (batch_BatchNumber (ex_batch 10)) =
              Inr (ex_batch 13)"
    by (simp add: ex_generate_env_def)
  have h3: "ge_IsProfitable ex_generate_env = Inr False"
    by (simp add: ex_generate_env_def)
  from tryGenerateBatchProof_unprofitable_panics [OF h1 h2 h3, of "''prover-1''" ex_aggregator]
  show ?thesis by blast
qed

end
